theory Spec2Isabelle
  imports Complex_Main
begin

section \<open>Errors and the error monad\<close>

text \<open>
  The exceptions the source and its numerical libraries raise.  \<open>NotFinite\<close> stands for
  the floating-point results \<open>nan\<close> and \<open>inf\<close> that numpy returns (without raising) for
  a division by zero or the square root of a negative number: they are not real numbers,
  so over exact arithmetic the computation has no value there.
\<close>

datatype error = ValueError | TypeError | KeyError | IndexError | LinAlgError | NotFinite

definition bindE :: "error + 'a \<Rightarrow> ('a \<Rightarrow> error + 'b) \<Rightarrow> error + 'b" where
  "bindE r f = (case r of Inl e \<Rightarrow> Inl e | Inr x \<Rightarrow> f x)"

fun mapE :: "('a \<Rightarrow> error + 'b) \<Rightarrow> 'a list \<Rightarrow> error + 'b list" where
  "mapE f [] = Inr []"
| "mapE f (x # xs) = bindE (f x) (\<lambda>y. bindE (mapE f xs) (\<lambda>ys. Inr (y # ys)))"

text \<open>A \<open>for\<close> loop over a list that updates a state and stops at the first exception.\<close>

fun foldE :: "('a \<Rightarrow> 's \<Rightarrow> error + 's) \<Rightarrow> 'a list \<Rightarrow> 's \<Rightarrow> error + 's" where
  "foldE f [] s = Inr s"
| "foldE f (x # xs) s = bindE (f x s) (foldE f xs)"

section \<open>The numerical library layer (numpy, scipy, spherical_functions, scri)\<close>

text \<open>
  Modelled from the spec: the array, quadrature and waveform-container operations are
  library code outside the repository.  Arithmetic is exact (\<open>real\<close>, \<open>complex\<close>).
\<close>

text \<open>numpy's index normalisation on an axis of length \<open>n\<close>: negative indices count from the end.\<close>

definition np_index :: "nat \<Rightarrow> int \<Rightarrow> error + nat" where
  "np_index n j =
     (let k = (if j < 0 then int n + j else j)
      in if 0 \<le> k \<and> k < int n then Inr (nat k) else Inl IndexError)"

text \<open>numpy's broadcasting of a binary operation over two one-dimensional arrays.\<close>

definition np_broadcast :: "('a \<Rightarrow> 'b \<Rightarrow> 'c) \<Rightarrow> 'a list \<Rightarrow> 'b list \<Rightarrow> error + 'c list" where
  "np_broadcast f xs ys =
     (if length xs = length ys then Inr (map2 f xs ys)
      else if length xs = 1 then Inr (map (f (hd xs)) ys)
      else if length ys = 1 then Inr (map (\<lambda>x. f x (hd ys)) xs)
      else Inl ValueError)"

text \<open>The same over two-dimensional arrays held as lists of rows.\<close>

definition np_broadcast2 ::
  "('a \<Rightarrow> 'b \<Rightarrow> 'c) \<Rightarrow> 'a list list \<Rightarrow> 'b list list \<Rightarrow> error + 'c list list" where
  "np_broadcast2 f xss yss =
     bindE (np_broadcast (np_broadcast f) xss yss) (mapE (\<lambda>r. r))"

text \<open>\<open>np.argmin\<close>: the first index of the least element; an empty array raises.\<close>

fun argmin_aux :: "real list \<Rightarrow> nat \<Rightarrow> real \<Rightarrow> nat \<Rightarrow> nat" where
  "argmin_aux [] i best bi = bi"
| "argmin_aux (x # xs) i best bi =
     (if x < best then argmin_aux xs (Suc i) x i else argmin_aux xs (Suc i) best bi)"

fun argmin :: "real list \<Rightarrow> error + nat" where
  "argmin [] = Inl ValueError"
| "argmin (x # xs) = Inr (argmin_aux xs 1 x 0)"

text \<open>\<open>scipy.integrate.trapezoid(y, x)\<close>: \<open>sum (diff x * (y[1:] + y[:-1]) / 2)\<close>.\<close>

definition np_diff :: "real list \<Rightarrow> real list" where
  "np_diff xs = map2 (\<lambda>b a. b - a) (tl xs) (butlast xs)"

definition trapezoid :: "real list \<Rightarrow> real list \<Rightarrow> error + real" where
  "trapezoid ys xs =
     bindE (np_broadcast (\<lambda>d s. d * s / 2) (np_diff xs) (map2 (\<lambda>b a. b + a) (tl ys) (butlast ys)))
       (\<lambda>zs. Inr (sum_list zs))"

text \<open>Division and square root of floating-point scalars, over exact arithmetic.\<close>

definition np_divide :: "real \<Rightarrow> real \<Rightarrow> error + real" where
  "np_divide x y = (if y = 0 then Inl NotFinite else Inr (x / y))"

definition np_sqrt :: "real \<Rightarrow> error + real" where
  "np_sqrt x = (if x < 0 then Inl NotFinite else Inr (sqrt x))"

text \<open>\<open>spherical_functions.LM_index\<close> and \<open>LM_range\<close>: the column of mode \<open>(ell, m)\<close>.\<close>

definition LM_index :: "int \<Rightarrow> int \<Rightarrow> int \<Rightarrow> int" where
  "LM_index ell m ell_min = ell * (ell + 1) - ell_min * ell_min + m"

definition LM_range :: "int \<Rightarrow> int \<Rightarrow> (int \<times> int) list" where
  "LM_range ell_min ell_max = concat (map (\<lambda>l. map (\<lambda>m. (l, m)) [- l..l]) [ell_min..ell_max])"

text \<open>
  \<open>scri.WaveformModes\<close>: a time axis, one row of complex mode amplitudes per time sample,
  and the range of \<open>ell\<close> the columns cover.
\<close>

record waveform =
  wf_t :: "real list"
  wf_data :: "complex list list"
  wf_ell_min :: int
  wf_ell_max :: int

definition n_modes :: "waveform \<Rightarrow> nat" where
  "n_modes h = length (LM_range (wf_ell_min h) (wf_ell_max h))"

definition wf_ok :: "waveform \<Rightarrow> bool" where
  "wf_ok h \<longleftrightarrow> length (wf_data h) = length (wf_t h) \<and>
     list_all (\<lambda>row. length row = n_modes h) (wf_data h)"

text \<open>\<open>h[a:b]\<close> for non-negative \<open>a\<close>, \<open>b\<close>: the time samples \<open>a \<le> k < b\<close>.\<close>

definition slice_times :: "waveform \<Rightarrow> nat \<Rightarrow> nat \<Rightarrow> waveform" where
  "slice_times h a b =
     h\<lparr>wf_t := drop a (take b (wf_t h)), wf_data := drop a (take b (wf_data h))\<rparr>"

text \<open>\<open>h.norm()\<close>: per time sample, the sum of \<open>|amplitude|\<^sup>2\<close> over all mode columns.\<close>

definition norm_wf :: "waveform \<Rightarrow> real list" where
  "norm_wf h = map (\<lambda>row. sum_list (map (\<lambda>z. (cmod z)\<^sup>2) row)) (wf_data h)"

text \<open>\<open>h.data[:, j] *= 0\<close> for a numpy column index \<open>j\<close>.\<close>

definition zero_column :: "waveform \<Rightarrow> int \<Rightarrow> error + waveform" where
  "zero_column h j =
     bindE (np_index (n_modes h) j)
       (\<lambda>k. Inr (h\<lparr>wf_data := map (\<lambda>row. row[k := row ! k * 0]) (wf_data h)\<rparr>))"

section \<open>The mismatch scorer: \<open>waveform_mismatch\<close>\<close>

text \<open>
  \<open>h.interpolate(new_t)\<close> is library code; the scorer takes it as the parameter \<open>interp\<close>.
\<close>

type_synonym interpolate = "waveform \<Rightarrow> real list \<Rightarrow> waveform"

text \<open>Lines 40-48: zero every column whose mode is not in \<open>modes\<close>, in both copies.\<close>

definition zero_unselected ::
  "(int \<times> int) list \<Rightarrow> (int \<times> int) \<Rightarrow> waveform \<times> waveform \<Rightarrow> error + waveform \<times> waveform" where
  "zero_unselected modes LM hs =
     (case LM of (L, M) \<Rightarrow> (case hs of (h_A_copy, h_B_copy) \<Rightarrow>
        if (L, M) \<notin> set modes then
          bindE (zero_column h_A_copy (LM_index L M (wf_ell_min h_A_copy)))
            (\<lambda>a. bindE (zero_column h_B_copy (LM_index L M (wf_ell_min h_B_copy)))
              (\<lambda>b. Inr (a, b)))
        else Inr (h_A_copy, h_B_copy)))"

definition select_modes ::
  "(int \<times> int) list option \<Rightarrow> waveform \<Rightarrow> waveform \<Rightarrow> error + waveform \<times> waveform" where
  "select_modes modes h_A h_B =
     (case modes of
        None \<Rightarrow> Inr (h_A, h_B)
      | Some ms \<Rightarrow>
          foldE (zero_unselected ms)
            (concat (map (\<lambda>L. map (\<lambda>M. (L, M)) [- L..L]) [2..wf_ell_max h_A])) (h_A, h_B))"

text \<open>
  Line 50: \<open>h_A_copy[np.argmin(abs(h_A.t - t1)) + 1 : np.argmin(abs(h_A.t - t2)) + 1]\<close>.
  The indices are looked up on the time axis of \<open>h\<close> and cut the copy \<open>h_copy\<close>.
\<close>

definition nearest_index :: "real list \<Rightarrow> real \<Rightarrow> error + nat" where
  "nearest_index ts t1 = argmin (map (\<lambda>x. \<bar>x - t1\<bar>) ts)"

definition restrict_window :: "waveform \<Rightarrow> waveform \<Rightarrow> real \<Rightarrow> real \<Rightarrow> error + waveform" where
  "restrict_window h h_copy t1 t2 =
     bindE (nearest_index (wf_t h) t1)
       (\<lambda>i1. bindE (nearest_index (wf_t h) t2)
         (\<lambda>i2. Inr (slice_times h_copy (i1 + 1) (i2 + 1))))"

text \<open>
  Lines 51-56: \<open>h_B_copy\<close> is still the unrestricted copy when its sample count is compared
  with that of the restricted \<open>h_A_copy\<close>.
\<close>

definition align_B ::
  "interpolate \<Rightarrow> waveform \<Rightarrow> waveform \<Rightarrow> waveform \<Rightarrow> real \<Rightarrow> real \<Rightarrow> error + waveform" where
  "align_B interp h_A_copy h_B h_B_copy t1 t2 =
     (if length (wf_t h_A_copy) \<noteq> length (wf_t h_B_copy)
      then Inr (interp h_B_copy (wf_t h_A_copy))
      else restrict_window h_B h_B_copy t1 t2)"

text \<open>Lines 57-61: one minus the normalised trapezoidal inner product.\<close>

definition overlap_integrand :: "waveform \<Rightarrow> waveform \<Rightarrow> error + real list" where
  "overlap_integrand h_A_copy h_B_copy =
     bindE (np_broadcast2 (\<lambda>a b. Re (a * cnj b)) (wf_data h_A_copy) (wf_data h_B_copy))
       (\<lambda>prod. Inr (map sum_list prod))"

definition mismatch_score :: "waveform \<Rightarrow> waveform \<Rightarrow> error + real" where
  "mismatch_score h_A_copy h_B_copy =
     bindE (overlap_integrand h_A_copy h_B_copy)
       (\<lambda>integrand. bindE (trapezoid integrand (wf_t h_A_copy))
         (\<lambda>inner. bindE (trapezoid (norm_wf h_A_copy) (wf_t h_A_copy))
           (\<lambda>nA. bindE (trapezoid (norm_wf h_B_copy) (wf_t h_B_copy))
             (\<lambda>nB. bindE (np_sqrt (nA * nB))
               (\<lambda>den. bindE (np_divide inner den)
                 (\<lambda>ratio. Inr (1 - ratio)))))))"

definition waveform_mismatch ::
  "interpolate \<Rightarrow> waveform \<Rightarrow> waveform \<Rightarrow> (int \<times> int) list option \<Rightarrow> real \<Rightarrow> real \<Rightarrow> error + real" where
  "waveform_mismatch interp h_A h_B modes t1 t2 =
     bindE (select_modes modes h_A h_B)
       (\<lambda>(h_A_copy, h_B_copy). bindE (restrict_window h_A h_A_copy t1 t2)
         (\<lambda>h_A_copy. bindE (align_B interp h_A_copy h_B h_B_copy t1 t2)
           (\<lambda>h_B_copy. mismatch_score h_A_copy h_B_copy)))"


section \<open>The mode oracle adapter: \<open>qnm_from_tuple\<close>\<close>

text \<open>
  The quasinormal-mode database (the \<open>qnm\<close> package) is an external oracle, taken as a
  parameter.  \<open>ksc s ell m n\<close> is \<open>qnm.modes_cache(s, ell, m, n)\<close>; the mode sequence it
  returns is called with \<open>store=True\<close> (\<open>ms_store\<close>) or \<open>interp_only=True\<close> (\<open>ms_interp\<close>)
  and gives \<open>(M*omega, C)\<close>; \<open>angular_ells\<close> is \<open>qnm.angular.ells\<close>.  Any of the calls may raise.
\<close>

record mode_seq =
  ms_store :: "real \<Rightarrow> error + complex \<times> complex list"
  ms_interp :: "real \<Rightarrow> error + complex \<times> complex list"
  ms_l_max :: int

record mode_oracle =
  ksc :: "int \<Rightarrow> int \<Rightarrow> int \<Rightarrow> int \<Rightarrow> error + mode_seq"
  angular_ells :: "int \<Rightarrow> int \<Rightarrow> int \<Rightarrow> int list"

type_synonym mode_label = "int \<times> int \<times> int \<times> int"

text \<open>\<open>(-1) ** es\<close> on an integer array: numpy refuses negative integer exponents.\<close>

definition np_neg_one_pow :: "int list \<Rightarrow> error + int list" where
  "np_neg_one_pow es =
     (if list_ex (\<lambda>e. e < 0) es then Inl ValueError else Inr (map (\<lambda>e. (- 1) ^ nat e) es))"

text \<open>Lines 100-103: the bare \<open>except\<close> falls back to the interpolated estimate.\<close>

definition call_mode_seq :: "mode_seq \<Rightarrow> real \<Rightarrow> error + complex \<times> complex list" where
  "call_mode_seq mode_seq chi =
     (case ms_store mode_seq chi of Inr r \<Rightarrow> Inr r | Inl _ \<Rightarrow> ms_interp mode_seq chi)"

definition qnm_from_tuple ::
  "mode_oracle \<Rightarrow> mode_label \<Rightarrow> real \<Rightarrow> real \<Rightarrow> int \<Rightarrow> error + complex \<times> complex list \<times> int list" where
  "qnm_from_tuple orc tup chi mass s =
     (case tup of (ell, m, n, sign) \<Rightarrow>
        bindE (if sign = 1 then ksc orc s ell m n
               else if sign = - 1 then ksc orc s ell (- m) n
               else Inl ValueError)
          (\<lambda>mode_seq. bindE (call_mode_seq mode_seq chi)
            (\<lambda>(Momega, C).
               let ells = angular_ells orc s m (ms_l_max mode_seq) in
               bindE (if sign = - 1
                      then bindE (np_neg_one_pow (map (\<lambda>l. ell + l) ells))
                             (\<lambda>signs. bindE (np_broadcast (\<lambda>sg c. of_int sg * c) signs (map cnj C))
                               (\<lambda>C'. Inr (- cnj Momega, C')))
                      else Inr (Momega, C))
                 (\<lambda>(Momega, C).
                    if mass = 0 then Inl NotFinite
                    else Inr (Momega / of_real mass, C, ells)))))"

section \<open>The waveform synthesizer: \<open>qnm_modes\<close>\<close>

text \<open>
  A term of the mode dictionary is a Python dict with the keys \<open>type\<close>, \<open>mode\<close>, \<open>A\<close>,
  \<open>omega\<close> and \<open>target mode\<close>; every key but \<open>type\<close> may be missing, and reading a missing
  key raises \<open>KeyError\<close>.  Dictionary keys are hashable values; a dictionary keeps its
  insertion order and is held as an association list with distinct keys.
\<close>

record qnm_term =
  term_type :: string
  term_mode :: "mode_label option"
  term_A :: "complex option"
  term_omega :: "complex option"
  term_target_mode :: "(int \<times> int) option"

datatype key = IntKey int | StrKey string

type_synonym term_dict = "(key \<times> qnm_term) list"

definition get_field :: "'a option \<Rightarrow> error + 'a" where
  "get_field f = (case f of None \<Rightarrow> Inl KeyError | Some v \<Rightarrow> Inr v)"

text \<open>Spin and mass are scalars, or lists / arrays with one value per time sample.\<close>

datatype param = Scalar real | Array "real list"

fun is_array :: "param \<Rightarrow> bool" where
  "is_array (Scalar x) = False"
| "is_array (Array xs) = True"

fun param_at :: "param \<Rightarrow> nat \<Rightarrow> error + real" where
  "param_at (Scalar x) i = Inr x"
| "param_at (Array xs) i = (if i < length xs then Inr (xs ! i) else Inl IndexError)"

text \<open>A caller-supplied destination array: its shape, whether its dtype is complex, its cells.\<close>

record buffer =
  buf_shape :: "nat list"
  buf_is_complex :: bool
  buf_data :: "complex list list"

text \<open>
  Statements that update the data array in place: each returns the array as the statement
  leaves it, also when it raises.
\<close>

type_synonym 's stmt = "'s \<Rightarrow> 's \<times> (error + unit)"

definition commit :: "'s \<Rightarrow> error + 's \<Rightarrow> 's \<times> (error + unit)" where
  "commit s r = (case r of Inl e \<Rightarrow> (s, Inl e) | Inr s' \<Rightarrow> (s', Inr ()))"

fun foldS :: "('a \<Rightarrow> 's stmt) \<Rightarrow> 'a list \<Rightarrow> 's stmt" where
  "foldS f [] s = (s, Inr ())"
| "foldS f (x # xs) s =
     (case f x s of (s', Inl e) \<Rightarrow> (s', Inl e) | (s', Inr _) \<Rightarrow> foldS f xs s')"

text \<open>The builtins \<open>min\<close> and \<open>max\<close> raise on an empty sequence; \<open>min_ell LM\<close> is \<open>min(LM[:, 0])\<close>.\<close>

definition python_min :: "int list \<Rightarrow> error + int" where
  "python_min xs = (case xs of [] \<Rightarrow> Inl ValueError | x # rest \<Rightarrow> Inr (fold min rest x))"

definition python_max :: "int list \<Rightarrow> error + int" where
  "python_max xs = (case xs of [] \<Rightarrow> Inl ValueError | x # rest \<Rightarrow> Inr (fold max rest x))"

definition min_ell :: "(int \<times> int) list \<Rightarrow> error + int" where
  "min_ell LM = python_min (map fst LM)"

text \<open>\<open>C[ells == l]\<close>: a boolean mask must have the length of the array it selects from.\<close>

definition np_mask :: "complex list \<Rightarrow> int list \<Rightarrow> int \<Rightarrow> error + complex list" where
  "np_mask C ells l =
     (if length ells \<noteq> length C then Inl IndexError
      else Inr (map fst (filter (\<lambda>(c, l'). l' = l) (zip C ells))))"

text \<open>\<open>data[:, j] += v\<close>: \<open>v\<close> must broadcast to the column's shape.\<close>

definition np_iadd_column :: "complex list list \<Rightarrow> nat \<Rightarrow> complex list \<Rightarrow> error + complex list list" where
  "np_iadd_column data j v =
     (if length v = length data then Inr (map2 (\<lambda>row x. row[j := row ! j + x]) data v)
      else if length v = 1 then Inr (map (\<lambda>row. row[j := row ! j + hd v]) data)
      else Inl ValueError)"

text \<open>\<open>data[i, j] += x\<close> for a scalar \<open>x\<close>.\<close>

definition np_iadd_cell :: "complex list list \<Rightarrow> nat \<Rightarrow> nat \<Rightarrow> complex \<Rightarrow> complex list list" where
  "np_iadd_cell data i j x = data[i := (data ! i)[j := data ! i ! j + x]]"

definition expiwt_at :: "complex \<Rightarrow> real \<Rightarrow> real \<Rightarrow> complex" where
  "expiwt_at omega t_ref x = exp (Complex 0 (- 1) * omega * of_real (x - t_ref))"

text \<open>
  Lines 204-212, one iteration of \<open>for _l, _m in LM\<close> with scalar spin and mass.  When the
  mask selects nothing, \<open>c_l\<close> stays the empty array and \<open>A * expiwt * c_l\<close> is a product of
  arrays of lengths \<open>len(t)\<close> and \<open>0\<close>.
\<close>

definition add_mode_scalar ::
  "complex \<Rightarrow> complex list \<Rightarrow> complex list \<Rightarrow> int list \<Rightarrow> int \<Rightarrow> (int \<times> int) list
     \<Rightarrow> int \<times> int \<Rightarrow> complex list list stmt" where
  "add_mode_scalar A expiwt C ells m LM lm data =
     (case lm of (l', m') \<Rightarrow>
        if m' = m then
          commit data
            (bindE (np_mask C ells l')
              (\<lambda>c_l. bindE (bindE (min_ell LM) (\<lambda>lo. np_index (length LM) (LM_index l' m' lo)))
                (\<lambda>j. bindE (if length c_l > 0 then Inr (map (\<lambda>w. A * w * hd c_l) expiwt)
                              else np_broadcast (\<lambda>w c. w * c) (map (\<lambda>w. A * w) expiwt) c_l)
                  (np_iadd_column data j))))
        else (data, Inr ()))"

definition add_qnm_scalar ::
  "mode_oracle \<Rightarrow> real \<Rightarrow> real \<Rightarrow> int \<Rightarrow> real \<Rightarrow> real list \<Rightarrow> (int \<times> int) list \<Rightarrow> qnm_term
     \<Rightarrow> complex list list stmt" where
  "add_qnm_scalar orc chi mass s t_ref t LM term data =
     (case get_field (term_mode term) of Inl e \<Rightarrow> (data, Inl e)
      | Inr (ell, m, n, sign) \<Rightarrow>
     (case qnm_from_tuple orc (ell, m, n, sign) chi mass s of Inl e \<Rightarrow> (data, Inl e)
      | Inr (omega, C, ells) \<Rightarrow>
     (case get_field (term_A term) of Inl e \<Rightarrow> (data, Inl e)
      | Inr A \<Rightarrow>
          foldS (add_mode_scalar A (map (expiwt_at omega t_ref) t) C ells m LM) LM data)))"

text \<open>
  Lines 169-196, one iteration of \<open>for i in range(len(t))\<close> with array-valued spin or mass.
  Storing the empty array \<open>A * expiwt * c_l\<close> into the cell \<open>data[i, j]\<close> raises.
\<close>

definition add_mode_sample ::
  "complex \<Rightarrow> complex \<Rightarrow> complex list \<Rightarrow> int list \<Rightarrow> int \<Rightarrow> (int \<times> int) list \<Rightarrow> nat
     \<Rightarrow> int \<times> int \<Rightarrow> complex list list stmt" where
  "add_mode_sample A expiwt C ells m LM i lm data =
     (case lm of (l', m') \<Rightarrow>
        if m' = m then
          commit data
            (bindE (np_mask C ells l')
              (\<lambda>c_l. bindE (bindE (min_ell LM) (\<lambda>lo. np_index (length LM) (LM_index l' m' lo)))
                (\<lambda>j. if length c_l > 0 then Inr (np_iadd_cell data i j (A * expiwt * hd c_l))
                      else Inl ValueError)))
        else (data, Inr ()))"

definition add_qnm_sample ::
  "mode_oracle \<Rightarrow> param \<Rightarrow> param \<Rightarrow> int \<Rightarrow> real \<Rightarrow> real list \<Rightarrow> (int \<times> int) list \<Rightarrow> qnm_term
     \<Rightarrow> nat \<Rightarrow> complex list list stmt" where
  "add_qnm_sample orc chi mass s t_ref t LM term i data =
     (case param_at chi i of Inl e \<Rightarrow> (data, Inl e)
      | Inr chi_value \<Rightarrow>
     (case param_at mass i of Inl e \<Rightarrow> (data, Inl e)
      | Inr mass_value \<Rightarrow>
     (case get_field (term_mode term) of Inl e \<Rightarrow> (data, Inl e)
      | Inr (ell, m, n, sign) \<Rightarrow>
     (case qnm_from_tuple orc (ell, m, n, sign) chi_value mass_value s of Inl e \<Rightarrow> (data, Inl e)
      | Inr (omega, C, ells) \<Rightarrow>
     (case get_field (term_A term) of Inl e \<Rightarrow> (data, Inl e)
      | Inr A \<Rightarrow>
          foldS (add_mode_sample A (expiwt_at omega t_ref (t ! i)) C ells m LM i) LM data)))))"

text \<open>Lines 213-226: a term of type \<open>other\<close> goes into its target column.\<close>

definition add_other :: "real \<Rightarrow> real list \<Rightarrow> (int \<times> int) list \<Rightarrow> qnm_term \<Rightarrow> complex list list stmt" where
  "add_other t_ref t LM term data =
     commit data
       (bindE (get_field (term_omega term))
         (\<lambda>omega. bindE (get_field (term_A term))
           (\<lambda>A. bindE (get_field (term_target_mode term))
             (\<lambda>(tl, tm). bindE (min_ell LM)
               (\<lambda>lo. bindE (np_index (length LM) (LM_index tl tm lo))
                 (\<lambda>j. np_iadd_column data j (map (\<lambda>x. A * expiwt_at omega t_ref x) t)))))))"

text \<open>Lines 166-228: one iteration of \<open>for term in mode_dict.values()\<close>.\<close>

definition add_term ::
  "mode_oracle \<Rightarrow> param \<Rightarrow> param \<Rightarrow> int \<Rightarrow> real \<Rightarrow> real list \<Rightarrow> (int \<times> int) list \<Rightarrow> qnm_term
     \<Rightarrow> complex list list stmt" where
  "add_term orc chi mass s t_ref t LM term data =
     (if term_type term = ''QNM'' then
        (case (chi, mass) of
           (Scalar chi_value, Scalar mass_value) \<Rightarrow>
             add_qnm_scalar orc chi_value mass_value s t_ref t LM term data
         | _ \<Rightarrow> foldS (add_qnm_sample orc chi mass s t_ref t LM term) [0..<length t] data)
      else if term_type term = ''other'' then add_other t_ref t LM term data
      else (data, Inl ValueError))"

text \<open>
  Lines 153-230.  The result pairs the caller's destination array as the call leaves it
  (\<open>None\<close> when none was passed) with the returned array or the exception raised.  With a
  destination, \<open>data\<close> is that very array, so every write to \<open>data\<close> is a write to it.
\<close>

definition data_functor ::
  "mode_oracle \<Rightarrow> param \<Rightarrow> param \<Rightarrow> term_dict \<Rightarrow> buffer option \<Rightarrow> real
     \<Rightarrow> real list \<Rightarrow> (int \<times> int) list \<Rightarrow> buffer option \<times> (error + complex list list)" where
  "data_functor orc chi mass mode_dict dest t_ref t LM =
     (let d_shape = [length t, length LM];
          zeros = replicate (length t) (replicate (length LM) 0);
          run = foldS (add_term orc chi mass (- 2) t_ref t LM) (map snd mode_dict) zeros
      in case dest of
           None \<Rightarrow> (case run of (data, Inl e) \<Rightarrow> (None, Inl e) | (data, Inr _) \<Rightarrow> (None, Inr data))
         | Some b \<Rightarrow>
             if buf_shape b \<noteq> d_shape \<or> \<not> buf_is_complex b then (Some b, Inl TypeError)
             else (case run of
                     (data, Inl e) \<Rightarrow> (Some (b\<lparr>buf_data := data\<rparr>), Inl e)
                   | (data, Inr _) \<Rightarrow> (Some (b\<lparr>buf_data := data\<rparr>), Inr data)))"

text \<open>
  Modelled from the spec: \<open>scri.sample_waveforms.modes_constructor\<close>, which invokes the data
  functor once with the time axis and the mode index array and wraps the filled array.  Its
  first argument, the constructor statement, only goes into the waveform's history text,
  which the waveform record leaves out; \<open>qnm_modes\<close> formats \<open>t_0\<close> into that statement and
  uses it nowhere else.
\<close>

datatype statement = Qnm_modes_statement param param term_dict real real

definition modes_constructor ::
  "statement \<Rightarrow> (real list \<Rightarrow> (int \<times> int) list \<Rightarrow> buffer option \<times> (error + complex list list))
     \<Rightarrow> real list \<Rightarrow> int \<Rightarrow> int \<Rightarrow> buffer option \<times> (error + waveform)" where
  "modes_constructor constructor_statement functor t ell_min ell_max =
     (case functor t (LM_range ell_min ell_max) of
        (dest', Inl e) \<Rightarrow> (dest', Inl e)
      | (dest', Inr data) \<Rightarrow>
          (dest', Inr \<lparr>wf_t = t, wf_data = data, wf_ell_min = ell_min, wf_ell_max = ell_max\<rparr>))"

definition qnm_modes ::
  "mode_oracle \<Rightarrow> param \<Rightarrow> param \<Rightarrow> term_dict \<Rightarrow> buffer option \<Rightarrow> real \<Rightarrow> real
     \<Rightarrow> real list \<Rightarrow> int \<Rightarrow> int \<Rightarrow> buffer option \<times> (error + waveform)" where
  "qnm_modes orc chi mass mode_dict dest t_0 t_ref t ell_min ell_max =
     modes_constructor (Qnm_modes_statement chi mass mode_dict t_0 t_ref)
       (data_functor orc chi mass mode_dict dest t_ref) t ell_min ell_max"

definition qnm_modes_as ::
  "mode_oracle \<Rightarrow> param \<Rightarrow> param \<Rightarrow> term_dict \<Rightarrow> waveform \<Rightarrow> buffer option \<Rightarrow> real \<Rightarrow> real
     \<Rightarrow> buffer option \<times> (error + waveform)" where
  "qnm_modes_as orc chi mass mode_dict W_other dest t_0 t_ref =
     qnm_modes orc chi mass mode_dict dest t_0 t_ref
       (wf_t W_other) (wf_ell_min W_other) (wf_ell_max W_other)"


section \<open>The least-squares fitter: \<open>fit_ringdown_waveform_LLSQ_S2\<close>\<close>

text \<open>
  \<open>np.linalg.lstsq(B, A, rcond=None)[0]\<close> is library code, taken as the parameter \<open>lstsq\<close>:
  from the design matrix (a list of rows) and the observation vector it returns the
  solution vector, or raises.
\<close>

type_synonym lstsq = "complex list list \<Rightarrow> complex list \<Rightarrow> error + complex list"





text \<open>
  The fitter's state is the caller's dictionary \<open>fixed_QNMs\<close>: the term objects it holds are
  the ones the fitter writes to, and the dictionary it returns is that same object.  A term
  object is identified by its position in the dictionary (no two keys hold the same object).
  \<open>term["mode"][1]\<close> is \<open>term_m\<close>.
\<close>

definition term_m :: "qnm_term \<Rightarrow> error + int" where
  "term_m term = bindE (get_field (term_mode term)) (\<lambda>(ell, m, n, sign). Inr m)"

text \<open>Lines 342-347: the azimuthal numbers in order of first appearance.\<close>

definition append_new :: "int list \<Rightarrow> int \<Rightarrow> int list" where
  "append_new m_list m = (if m \<notin> set m_list then m_list @ [m] else m_list)"

definition collect_m :: "term_dict \<Rightarrow> error + int list" where
  "collect_m fixed_QNMs =
     bindE (mapE term_m (map snd fixed_QNMs)) (\<lambda>ms. Inr (foldl append_new [] ms))"

text \<open>Lines 351-355: the enumeration indices \<open>i\<close> of the terms of azimuthal number \<open>m\<close>.\<close>

definition mode_labels :: "term_dict \<Rightarrow> int \<Rightarrow> error + nat list" where
  "mode_labels fixed_QNMs m =
     bindE (mapE term_m (map snd fixed_QNMs))
       (\<lambda>ms. Inr (filter (\<lambda>i. ms ! i = m) [0..<length ms]))"

text \<open>Lines 358-371: the columns fitted for \<open>m\<close> and the range of \<open>ell\<close>.\<close>

definition group_columns ::
  "waveform \<Rightarrow> (int \<times> int) list option \<Rightarrow> int \<Rightarrow> error + int list \<times> int \<times> int" where
  "group_columns h_ring modes m =
     (case modes of
        None \<Rightarrow>
          Inr (map (\<lambda>l. LM_index l m (wf_ell_min h_ring)) [2..wf_ell_max h_ring],
               wf_ell_min h_ring, wf_ell_max h_ring)
      | Some ms \<Rightarrow>
          bindE (python_min (map fst (filter (\<lambda>(l', m'). m = m') ms)))
            (\<lambda>ell_min_m. bindE (python_max (map fst (filter (\<lambda>(l', m'). m = m') ms)))
              (\<lambda>ell_max_m.
                 Inr (map (\<lambda>l. LM_index l m (wf_ell_min h_ring))
                        (filter (\<lambda>l. (l, m) \<in> set ms) [2..wf_ell_max h_ring]),
                      ell_min_m, ell_max_m))))"

text \<open>
  Modelled from the spec: \<open>h[:, :stop]\<close> of \<open>scri.WaveformModes\<close>, the waveform restricted to
  the modes with \<open>ell < stop\<close>; a range beyond the waveform's own is refused.
\<close>

definition slice_ells :: "waveform \<Rightarrow> int \<Rightarrow> error + waveform" where
  "slice_ells h stop =
     (if stop - 1 > wf_ell_max h then Inl ValueError
      else Inr (h\<lparr>wf_ell_max := stop - 1,
                  wf_data := map (take (length (LM_range (wf_ell_min h) (stop - 1)))) (wf_data h)\<rparr>))"

text \<open>\<open>data[:, idx]\<close> for a list \<open>idx\<close> of numpy column indices.\<close>

definition np_take_columns :: "nat \<Rightarrow> complex list list \<Rightarrow> int list \<Rightarrow> error + complex list list" where
  "np_take_columns ncols data idx =
     bindE (mapE (np_index ncols) idx) (\<lambda>ks. Inr (map (\<lambda>row. map (\<lambda>k. row ! k) ks) data))"

text \<open>\<open>B[:, :, mode_index] = block\<close>: the block must broadcast to \<open>width\<close> columns.\<close>

definition np_assign_block :: "nat \<Rightarrow> nat \<Rightarrow> complex list list \<Rightarrow> error + complex list list" where
  "np_assign_block width ncols block =
     (if ncols = width then Inr block
      else if ncols = 1 then Inr (map (\<lambda>row. replicate width (hd row)) block)
      else Inl ValueError)"

text \<open>\<open>term["A"] = v\<close> on the term object at position \<open>i\<close>.\<close>

definition set_A_at :: "term_dict \<Rightarrow> nat \<Rightarrow> complex \<Rightarrow> term_dict" where
  "set_A_at d i v = d[i := (fst (d ! i), (snd (d ! i))\<lparr>term_A := Some v\<rparr>)]"

text \<open>The position of the term object that \<open>fixed_QNMs[k]\<close> looks up.\<close>

fun key_index :: "term_dict \<Rightarrow> key \<Rightarrow> error + nat" where
  "key_index [] k = Inl KeyError"
| "key_index ((k', v) # rest) k =
     (if k' = k then Inr 0 else bindE (key_index rest k) (\<lambda>p. Inr (Suc p)))"

text \<open>
  Lines 381-387, one iteration: the unit amplitude is written into the term object itself
  (the copy \<open>term_w_A\<close> is never used), and the term's waveform fills one block of \<open>B\<close>.
\<close>

definition basis_column ::
  "mode_oracle \<Rightarrow> param \<Rightarrow> param \<Rightarrow> waveform \<Rightarrow> int list \<Rightarrow> nat \<Rightarrow> real \<Rightarrow> real \<Rightarrow> nat
     \<Rightarrow> (term_dict \<times> complex list list list) stmt" where
  "basis_column orc chi_f M_f h_ring_trunc data_index_m width t_0 t_ref i st =
     (case st of (fixed_QNMs, B) \<Rightarrow>
        let fixed_QNMs = set_A_at fixed_QNMs i 1;
            term = snd (fixed_QNMs ! i)
        in commit (fixed_QNMs, B)
             (bindE (snd (qnm_modes_as orc chi_f M_f [(IntKey 0, term)] h_ring_trunc None t_0 t_ref))
               (\<lambda>h_QNM. bindE (np_take_columns (n_modes h_QNM) (wf_data h_QNM) data_index_m)
                 (\<lambda>block. bindE (np_assign_block width (length data_index_m) block)
                   (\<lambda>block. Inr (fixed_QNMs, B @ [block]))))))"

text \<open>Lines 396-398, one iteration: \<open>fixed_QNMs[i]["A"] = C[0][count]\<close>.\<close>

definition write_back :: "complex list \<Rightarrow> nat \<times> nat \<Rightarrow> term_dict stmt" where
  "write_back x ic fixed_QNMs =
     (case ic of (i, count) \<Rightarrow>
        commit fixed_QNMs
          (bindE (if count < length x then Inr (x ! count) else Inl IndexError)
            (\<lambda>v. bindE (key_index fixed_QNMs (IntKey (int i)))
              (\<lambda>p. Inr (set_A_at fixed_QNMs p v)))))"

text \<open>\<open>np.reshape\<close> of a two-dimensional array to one dimension of the given size.\<close>

definition np_reshape_flat :: "complex list list \<Rightarrow> nat \<Rightarrow> error + complex list" where
  "np_reshape_flat A n = (if length (concat A) = n then Inr (concat A) else Inl ValueError)"

text \<open>Lines 389-392: the rows of the reshaped \<open>B\<close>, one entry per term of the group.\<close>

definition design_matrix :: "complex list list list \<Rightarrow> nat \<Rightarrow> complex list list" where
  "design_matrix B n = map (\<lambda>r. map (\<lambda>block. concat block ! r) B) [0..<n]"

text \<open>Lines 350-398: the body of \<open>for m in m_list\<close>.\<close>

definition fit_group ::
  "mode_oracle \<Rightarrow> lstsq \<Rightarrow> waveform \<Rightarrow> (int \<times> int) list option \<Rightarrow> param \<Rightarrow> param \<Rightarrow> real \<Rightarrow> real
     \<Rightarrow> int \<Rightarrow> term_dict stmt" where
  "fit_group orc solve h_ring modes chi_f M_f t_0 t_ref m fixed_QNMs =
     (case bindE (mode_labels fixed_QNMs m)
        (\<lambda>mode_labels_m. bindE (group_columns h_ring modes m)
          (\<lambda>(data_index_m, ell_min_m, ell_max_m).
             if ell_max_m - ell_min_m + 1 < 0 then Inl ValueError
             else bindE (slice_ells h_ring (ell_max_m + 1))
               (\<lambda>h_ring_trunc.
                  bindE (np_take_columns (n_modes h_ring_trunc) (wf_data h_ring_trunc) data_index_m)
                    (\<lambda>A. Inr (mode_labels_m, data_index_m, nat (ell_max_m - ell_min_m + 1),
                              h_ring_trunc, A))))) of
        Inl e \<Rightarrow> (fixed_QNMs, Inl e)
      | Inr (mode_labels_m, data_index_m, width, h_ring_trunc, A) \<Rightarrow>
     (case foldS (basis_column orc chi_f M_f h_ring_trunc data_index_m width t_0 t_ref)
             mode_labels_m (fixed_QNMs, []) of
        ((fixed_QNMs, B), Inl e) \<Rightarrow> (fixed_QNMs, Inl e)
      | ((fixed_QNMs, B), Inr _) \<Rightarrow>
     (case bindE (np_reshape_flat A (length (wf_t h_ring) * width))
             (\<lambda>A. solve (design_matrix B (length (wf_t h_ring) * width)) A) of
        Inl e \<Rightarrow> (fixed_QNMs, Inl e)
      | Inr x \<Rightarrow>
          foldS (write_back x) (zip mode_labels_m [0..<length mode_labels_m]) fixed_QNMs)))"

text \<open>Lines 402-413: the residual waveform over the scored modes.\<close>

definition diff_column :: "waveform \<Rightarrow> waveform \<Rightarrow> int \<times> int \<Rightarrow> waveform \<Rightarrow> error + waveform" where
  "diff_column h_ring h_QNM mode h_diff =
     (case mode of (L, M) \<Rightarrow>
        bindE (np_index (n_modes h_ring) (LM_index L M (wf_ell_min h_ring)))
          (\<lambda>jr. bindE (np_index (n_modes h_QNM) (LM_index L M (wf_ell_min h_QNM)))
            (\<lambda>jq. bindE (np_broadcast (\<lambda>a b. a - b)
                           (map (\<lambda>row. row ! jr) (wf_data h_ring)) (map (\<lambda>row. row ! jq) (wf_data h_QNM)))
              (\<lambda>col. bindE (np_index (n_modes h_diff) (LM_index L M (wf_ell_min h_diff)))
                (\<lambda>jd. if length col = length (wf_data h_diff)
                       then Inr (h_diff\<lparr>wf_data := map2 (\<lambda>row x. row[jd := x]) (wf_data h_diff) col\<rparr>)
                       else if length col = 1
                       then Inr (h_diff\<lparr>wf_data := map (\<lambda>row. row[jd := hd col]) (wf_data h_diff)\<rparr>)
                       else Inl ValueError)))))"

text \<open>Lines 400-420: the fitted waveform, the normalised error and the mismatch.\<close>

definition score_fit ::
  "mode_oracle \<Rightarrow> interpolate \<Rightarrow> waveform \<Rightarrow> (int \<times> int) list option \<Rightarrow> real \<times> real \<Rightarrow> param \<Rightarrow> param
     \<Rightarrow> real \<Rightarrow> term_dict \<Rightarrow> error + waveform \<times> waveform \<times> real \<times> real" where
  "score_fit orc interp h_ring modes times' chi_f M_f t_ref fixed_QNMs =
     bindE (snd (qnm_modes_as orc chi_f M_f fixed_QNMs h_ring None (fst times') t_ref))
       (\<lambda>h_QNM.
          let h_diff = h_ring\<lparr>wf_data := map (map (\<lambda>z. z * 0)) (wf_data h_ring)\<rparr>;
              modes = (case modes of
                         None \<Rightarrow> concat (map (\<lambda>L. map (\<lambda>M. (L, M)) [- L..L]) [2..wf_ell_max h_ring])
                       | Some ms \<Rightarrow> ms)
          in bindE (foldE (diff_column h_ring h_QNM) modes h_diff)
               (\<lambda>h_diff. bindE (trapezoid (norm_wf h_diff) (wf_t h_diff))
                 (\<lambda>num. bindE (trapezoid (norm_wf h_ring) (wf_t h_ring))
                   (\<lambda>den. bindE (np_divide (0.5 * num) den)
                     (\<lambda>err. bindE (waveform_mismatch interp h_ring h_QNM (Some modes)
                                     (fst times') (snd times'))
                       (\<lambda>mismatch. Inr (h_QNM, h_ring, err, mismatch)))))))"

text \<open>
  The whole routine.  The first component is the caller's dictionary as the call leaves it;
  on a normal return it is also the fifth returned value.
\<close>

definition fit_ringdown_waveform_LLSQ_S2 ::
  "mode_oracle \<Rightarrow> lstsq \<Rightarrow> interpolate \<Rightarrow> waveform \<Rightarrow> (int \<times> int) list option \<Rightarrow> real \<times> real
     \<Rightarrow> param \<Rightarrow> param \<Rightarrow> term_dict \<Rightarrow> real
     \<Rightarrow> term_dict \<times> (error + waveform \<times> waveform \<times> real \<times> real)" where
  "fit_ringdown_waveform_LLSQ_S2 orc solve interp h_ring modes times' chi_f M_f fixed_QNMs t_ref =
     (case collect_m fixed_QNMs of
        Inl e \<Rightarrow> (fixed_QNMs, Inl e)
      | Inr m_list \<Rightarrow>
     (case foldS (fit_group orc solve h_ring modes chi_f M_f (fst times') t_ref) m_list fixed_QNMs of
        (fixed_QNMs, Inl e) \<Rightarrow> (fixed_QNMs, Inl e)
      | (fixed_QNMs, Inr _) \<Rightarrow>
          (fixed_QNMs, score_fit orc interp h_ring modes times' chi_f M_f t_ref fixed_QNMs)))"

section \<open>Notions used to state the properties\<close>


text \<open>A dictionary with every amplitude removed: what is left are the keys, their order and all other fields.\<close>

definition erase_A :: "term_dict \<Rightarrow> term_dict" where
  "erase_A d = map (\<lambda>(k, v). (k, v\<lparr>term_A := None\<rparr>)) d"

text \<open>
  The column and the mixing coefficient that one pass of the loop over \<open>LM\<close> in
  \<open>data_functor\<close> (lines 174-181) adds for the pair \<open>(l', m')\<close>, for a term of azimuthal
  number \<open>m\<close> with mixing coefficients \<open>C\<close> over \<open>ells\<close>: nothing when \<open>m' \<noteq> m\<close>, an error when
  the mask selects no coefficient.
\<close>

definition step_target ::
  "complex list \<Rightarrow> int list \<Rightarrow> int \<Rightarrow> (int \<times> int) list \<Rightarrow> int \<times> int \<Rightarrow> error + (nat \<times> complex) option" where
  "step_target C ells m LM lm =
     (case lm of (l', m') \<Rightarrow>
        if m' = m then
          bindE (np_mask C ells l')
            (\<lambda>c_l. bindE (bindE (min_ell LM) (\<lambda>lo. np_index (length LM) (LM_index l' m' lo)))
              (\<lambda>j. if length c_l > 0 then Inr (Some (j, hd c_l)) else Inl ValueError))
        else Inr None)"

text \<open>
  The total coefficient that a list of such passes puts on column \<open>j\<close>.
\<close>

definition coef :: "(nat \<times> complex) option list \<Rightarrow> nat \<Rightarrow> complex" where
  "coef tg j = sum_list (map (\<lambda>tgt. case tgt of Some (j', c) \<Rightarrow> if j' = j then c else 0 | None \<Rightarrow> 0) tg)"


text \<open>
  For a QNM term: its frequency, its azimuthal number and the passes of the loop over \<open>LM\<close>.
\<close>

definition term_targets ::
  "mode_oracle \<Rightarrow> real \<Rightarrow> real \<Rightarrow> (int \<times> int) list \<Rightarrow> qnm_term
     \<Rightarrow> error + complex \<times> int \<times> (nat \<times> complex) option list" where
  "term_targets orc chi mass LM v =
     bindE (get_field (term_mode v))
       (\<lambda>(ell, m, n, sign). bindE (qnm_from_tuple orc (ell, m, n, sign) chi mass (- 2))
         (\<lambda>(omega, C, ells). bindE (mapE (step_target C ells m LM) LM)
           (\<lambda>tg. Inr (omega, m, tg))))"

text \<open>
  Entry \<open>(k, j)\<close> of the waveform that a QNM term synthesizes with amplitude 1.
\<close>

definition unit_entry ::
  "mode_oracle \<Rightarrow> real \<Rightarrow> real \<Rightarrow> real \<Rightarrow> real list \<Rightarrow> (int \<times> int) list \<Rightarrow> qnm_term
     \<Rightarrow> nat \<Rightarrow> nat \<Rightarrow> complex" where
  "unit_entry orc chi mass t_ref t LM v k j =
     (case term_targets orc chi mass LM v of
        Inr (omega, m, tg) \<Rightarrow> expiwt_at omega t_ref (t ! k) * coef tg j
      | Inl e \<Rightarrow> 0)"












section \<open>Concrete inputs for the examples\<close>

text \<open>
  A stand-in for the library's interpolation: piecewise linear between the samples, constant
  outside them.
\<close>

fun interp_at :: "(real \<times> complex list) list \<Rightarrow> real \<Rightarrow> complex list" where
  "interp_at [] x = []"
| "interp_at [(a, r)] x = r"
| "interp_at ((a, r) # (b, s) # rest) x =
     (if x \<le> a then r
      else if x < b then map2 (\<lambda>u v. u + of_real ((x - a) / (b - a)) * (v - u)) r s
      else interp_at ((b, s) # rest) x)"

definition linear_interpolate :: interpolate where
  "linear_interpolate h ts =
     h\<lparr>wf_t := ts, wf_data := map (interp_at (zip (wf_t h) (wf_data h))) ts\<rparr>"

definition wave_a :: waveform where
  "wave_a = \<lparr>wf_t = [0, 1, 2], wf_data = [[1], [2], [4]], wf_ell_min = 0, wf_ell_max = 0\<rparr>"

definition wave_b :: waveform where
  "wave_b = \<lparr>wf_t = [0, 2, 4], wf_data = [[1], [3], [5]], wf_ell_min = 0, wf_ell_max = 0\<rparr>"

definition wave_q :: waveform where
  "wave_q = \<lparr>wf_t = [0, 1, 2, 3],
      wf_data = [[1, 0, 2, 0, \<i>], [1, 1, 0, 0, 2], [0, 1, 0, 3, 1], [2, 0, 0, 0, 1]],
      wf_ell_min = 2, wf_ell_max = 2\<rparr>"


definition other_term :: qnm_term where
  "other_term = \<lparr>term_type = ''other'', term_mode = None, term_A = Some 2,
      term_omega = Some 0, term_target_mode = Some (2, 2)\<rparr>"

definition unknown_term :: qnm_term where
  "unknown_term = \<lparr>term_type = ''overtone'', term_mode = Some (2, 2, 0, 1), term_A = Some 1,
      term_omega = None, term_target_mode = None\<rparr>"

definition dest_buffer :: buffer where
  "dest_buffer = \<lparr>buf_shape = [2, 5], buf_is_complex = True,
      buf_data = [[7, 7, 7, 7, 7], [7, 7, 7, 7, 7]]\<rparr>"

definition qnm_220 :: qnm_term where
  "qnm_220 = \<lparr>term_type = ''QNM'', term_mode = Some (2, 2, 0, 1), term_A = Some 3,
      term_omega = None, term_target_mode = None\<rparr>"

definition qnm_200 :: qnm_term where
  "qnm_200 = \<lparr>term_type = ''QNM'', term_mode = Some (2, 0, 0, 1), term_A = Some 1,
      term_omega = None, term_target_mode = None\<rparr>"

text \<open>
  A least-squares solver for design matrices with mutually orthogonal columns: each unknown
  is the projection of the observation on its column.
\<close>

definition inner :: "complex list \<Rightarrow> complex list \<Rightarrow> complex" where
  "inner u v = sum_list (map2 (\<lambda>b a. cnj b * a) u v)"

definition lstsq_orthogonal :: lstsq where
  "lstsq_orthogonal B a =
     Inr (map (\<lambda>p. inner (map (\<lambda>row. row ! p) B) a / inner (map (\<lambda>row. row ! p) B) (map (\<lambda>row. row ! p) B))
            [0..<(case B of [] \<Rightarrow> 0 | row # _ \<Rightarrow> length row)])"

definition term_a :: qnm_term where
  "term_a = \<lparr>term_type = ''QNM'', term_mode = Some (2, 2, 0, 1), term_A = None,
      term_omega = None, term_target_mode = None\<rparr>"

definition term_b :: qnm_term where
  "term_b = \<lparr>term_type = ''QNM'', term_mode = Some (3, 2, 0, 1), term_A = None,
      term_omega = None, term_target_mode = None\<rparr>"

definition ring_ab :: waveform where
  "ring_ab = \<lparr>wf_t = [0, 1],
      wf_data = [[0, 0, 0, 0, 3, 0, 0, 0, 0, 0, 5, 0], [0, 0, 0, 0, 3, 0, 0, 0, 0, 0, 5, 0]],
      wf_ell_min = 2, wf_ell_max = 3\<rparr>"

definition dict_swapped :: term_dict where
  "dict_swapped = [(IntKey 1, term_a), (IntKey 0, term_b)]"


definition dict_named :: term_dict where
  "dict_named = [(StrKey ''a'', term_a), (StrKey ''b'', term_b)]"








text \<open>
  A small stand-in for the mode database: overtone \<open>n\<close> has frequency \<open>n - n\<i>\<close> (in
  units of the mass), the mixing coefficients are \<open>1\<close> on the term's own \<open>ell\<close> and
  \<open>\<i> chi\<close> elsewhere, and the mixing array covers \<open>max |s| |m|, ..., 3\<close>.
\<close>

definition toy_mode_seq :: "int \<Rightarrow> int \<Rightarrow> int \<Rightarrow> int \<Rightarrow> mode_seq" where
  "toy_mode_seq s ell m n =
     \<lparr>ms_store = (\<lambda>chi. Inr (Complex (of_int n) (- of_int n),
                     map (\<lambda>l'. if l' = ell then 1 else Complex 0 chi) [max \<bar>s\<bar> \<bar>m\<bar>..3])),
      ms_interp = (\<lambda>chi. Inl ValueError),
      ms_l_max = 3\<rparr>"

definition toy_oracle :: mode_oracle where
  "toy_oracle =
     \<lparr>ksc = (\<lambda>s ell m n. if ell < max \<bar>s\<bar> \<bar>m\<bar> \<or> 3 < ell \<or> n < 0 then Inl ValueError
                          else Inr (toy_mode_seq s ell m n)),
      angular_ells = (\<lambda>s m l_max. [max \<bar>s\<bar> \<bar>m\<bar>..l_max])\<rparr>"

section \<open>Properties\<close>









lemma zero_column_keeps:
  assumes "zero_column h j = Inr h'"
  shows "wf_t h' = wf_t h" "wf_ell_min h' = wf_ell_min h" "wf_ell_max h' = wf_ell_max h"
    "length (wf_data h') = length (wf_data h)"
  using assms by (auto simp: zero_column_def bindE_def split: sum.splits)

lemma zero_unselected_keeps:
  assumes "zero_unselected ms LM (a, b) = Inr (a', b')"
  shows "wf_t a' = wf_t a \<and> wf_t b' = wf_t b \<and> wf_ell_min a' = wf_ell_min a
     \<and> wf_ell_min b' = wf_ell_min b \<and> wf_ell_max a' = wf_ell_max a \<and> wf_ell_max b' = wf_ell_max b
     \<and> length (wf_data a') = length (wf_data a) \<and> length (wf_data b') = length (wf_data b)"
  using assms
  by (auto simp: zero_unselected_def bindE_def zero_column_keeps split: prod.splits sum.splits if_splits)

lemma zero_unselected_same:
  assumes "zero_unselected ms LM (a, a) = Inr (a', b')"
  shows "a' = b'"
  using assms
  by (auto simp: zero_unselected_def bindE_def split: prod.splits sum.splits if_splits)

lemma foldE_zero_unselected_keeps:
  assumes "foldE (zero_unselected ms) LMs (a, b) = Inr (a', b')"
  shows "wf_t a' = wf_t a \<and> wf_t b' = wf_t b \<and> wf_ell_min a' = wf_ell_min a
     \<and> wf_ell_min b' = wf_ell_min b \<and> wf_ell_max a' = wf_ell_max a \<and> wf_ell_max b' = wf_ell_max b
     \<and> length (wf_data a') = length (wf_data a) \<and> length (wf_data b') = length (wf_data b)"
  using assms
proof (induction LMs arbitrary: a b)
  case Nil
  then show ?case by simp
next
  case (Cons LM LMs)
  then obtain a1 b1 where s: "zero_unselected ms LM (a, b) = Inr (a1, b1)"
      and r: "foldE (zero_unselected ms) LMs (a1, b1) = Inr (a', b')"
    by (auto simp: bindE_def split: sum.splits)
  from Cons.IH [OF r] zero_unselected_keeps [OF s] show ?case by simp
qed

lemma foldE_zero_unselected_same:
  assumes "foldE (zero_unselected ms) LMs (a, a) = Inr (a', b')"
  shows "a' = b'"
  using assms
proof (induction LMs arbitrary: a)
  case Nil
  then show ?case by auto
next
  case (Cons LM LMs)
  then obtain a1 b1 where s: "zero_unselected ms LM (a, a) = Inr (a1, b1)"
      and r: "foldE (zero_unselected ms) LMs (a1, b1) = Inr (a', b')"
    by (auto simp: bindE_def split: sum.splits)
  from zero_unselected_same [OF s] have "a1 = b1" .
  with r Cons.IH show ?case by blast
qed

lemma select_modes_keeps:
  assumes "select_modes modes h_A h_B = Inr (a, b)"
  shows "wf_t a = wf_t h_A" "wf_t b = wf_t h_B"
    "length (wf_data a) = length (wf_data h_A)" "length (wf_data b) = length (wf_data h_B)"
proof -
  have "wf_t a = wf_t h_A \<and> wf_t b = wf_t h_B \<and> length (wf_data a) = length (wf_data h_A)
      \<and> length (wf_data b) = length (wf_data h_B)"
  proof (cases modes)
    case None
    with assms show ?thesis by (simp add: select_modes_def)
  next
    case (Some ms)
    with assms foldE_zero_unselected_keeps [of ms _ h_A h_B a b] show ?thesis
      by (simp add: select_modes_def)
  qed
  then show "wf_t a = wf_t h_A" "wf_t b = wf_t h_B"
    "length (wf_data a) = length (wf_data h_A)" "length (wf_data b) = length (wf_data h_B)"
    by simp_all
qed

lemma select_modes_same:
  assumes "select_modes modes h h = Inr (a, b)"
  shows "a = b"
  using assms foldE_zero_unselected_same
  by (auto simp: select_modes_def split: option.splits)

lemma restrict_window_shorter:
  assumes "restrict_window h h_copy t1 t2 = Inr r" "length (wf_t h_copy) = length (wf_t h)"
  shows "length (wf_t r) < length (wf_t h)"
proof -
  from assms(1) obtain i1 i2 where i: "nearest_index (wf_t h) t1 = Inr i1"
      and r: "r = slice_times h_copy (i1 + 1) (i2 + 1)"
    by (auto simp: restrict_window_def bindE_def split: sum.splits)
  from i have "wf_t h \<noteq> []" by (auto simp: nearest_index_def)
  then have "0 < length (wf_t h)" by simp
  then have "min (length (wf_t h)) (Suc i2) - Suc i1 < length (wf_t h)" by arith
  then show ?thesis using assms(2) by (simp add: r slice_times_def)
qed

text \<open>
  Claim C5, as amended.  The sample count of the restricted \<open>waveform_A\<close> is compared with the
  sample count of the whole, unrestricted \<open>waveform_B\<close>: \<open>waveform_B\<close> is interpolated onto the
  restricted time axis of \<open>waveform_A\<close> exactly when these two differ, and windowed by its own
  nearest-index lookup otherwise.  In particular two waveforms with the same number of samples
  always take the interpolation branch.
\<close>

theorem align_B_compares_unrestricted:
  assumes "select_modes modes h_A h_B = Inr (a, b)" "restrict_window h_A a t1 t2 = Inr ar"
  shows "waveform_mismatch interp h_A h_B modes t1 t2 =
           (if length (wf_t ar) \<noteq> length (wf_t h_B)
            then mismatch_score ar (interp b (wf_t ar))
            else bindE (restrict_window h_B b t1 t2) (mismatch_score ar))
         \<and> (length (wf_t h_A) = length (wf_t h_B) \<longrightarrow>
            waveform_mismatch interp h_A h_B modes t1 t2 = mismatch_score ar (interp b (wf_t ar)))"
proof -
  have tb: "wf_t b = wf_t h_B" and ta: "wf_t a = wf_t h_A"
    using select_modes_keeps [OF assms(1)] by simp_all
  have eq: "waveform_mismatch interp h_A h_B modes t1 t2 =
           (if length (wf_t ar) \<noteq> length (wf_t h_B)
            then mismatch_score ar (interp b (wf_t ar))
            else bindE (restrict_window h_B b t1 t2) (mismatch_score ar))"
    using assms by (simp add: waveform_mismatch_def align_B_def bindE_def tb)
  have "length (wf_t ar) < length (wf_t h_A)"
    using restrict_window_shorter [OF assms(2)] ta by simp
  with eq show ?thesis by simp
qed

lemma np_broadcast_same: "np_broadcast f xs xs = Inr (map (\<lambda>x. f x x) xs)"
  by (simp add: np_broadcast_def map2_map_map [where f = "\<lambda>x. x" and g = "\<lambda>x. x", simplified] zip_same_conv_map)

lemma mapE_Inr: "mapE (\<lambda>r. r) (map (\<lambda>x. Inr (g x)) xs) = Inr (map g xs)"
  by (induction xs) (simp_all add: bindE_def)

lemma np_broadcast2_same: "np_broadcast2 f xss xss = Inr (map (map (\<lambda>x. f x x)) xss)"
  by (simp add: np_broadcast2_def np_broadcast_same bindE_def mapE_Inr)

lemma overlap_integrand_self: "overlap_integrand h h = Inr (norm_wf h)"
proof -
  have "Re (z * cnj z) = (cmod z)\<^sup>2" for z
    using cmod_power2 [of z] by (simp add: power2_eq_square)
  then show ?thesis
    by (simp add: overlap_integrand_def np_broadcast2_same bindE_def norm_wf_def comp_def)
qed

lemma mismatch_score_self:
  assumes "trapezoid (norm_wf h) (wf_t h) = Inr X" "0 < X"
  shows "mismatch_score h h = Inr 0"
  using assms
  by (simp add: mismatch_score_def overlap_integrand_self bindE_def np_sqrt_def np_divide_def
      real_sqrt_mult_self)

text \<open>
  Claim C9, as amended.  When the mode selection and the window lookup succeed, the
  interpolation reproduces the waveform at its own sample times, and the norm integral over
  the window is positive, the mismatch of a waveform with itself is \<open>0\<close>.
\<close>

theorem mismatch_self_zero:
  assumes "select_modes modes h h = Inr (hc, hc')"
    and "restrict_window h hc t1 t2 = Inr hr"
    and "interp hc (wf_t hr) = hr"
    and "trapezoid (norm_wf hr) (wf_t hr) = Inr X" and "0 < X"
  shows "waveform_mismatch interp h h modes t1 t2 = Inr 0"
proof -
  have same: "hc' = hc" using select_modes_same [OF assms(1)] by simp
  have "wf_t hc = wf_t h" using select_modes_keeps [OF assms(1)] by simp
  then have "length (wf_t hr) < length (wf_t hc)"
    using restrict_window_shorter [OF assms(2)] by simp
  then have "align_B interp hr h hc t1 t2 = Inr hr"
    by (simp add: align_B_def assms(3))
  then show ?thesis
    using assms(1,2) mismatch_score_self [OF assms(4,5)]
    by (simp add: waveform_mismatch_def bindE_def same)
qed

lemmas upto_unfold = upto.simps [of "- 1"] upto.simps [of 0] upto.simps [of 1]

lemma sel_q: "select_modes (Some [(2, 2)]) wave_q wave_q =
   Inr (wave_q\<lparr>wf_data := [[0, 0, 0, 0, \<i>], [0, 0, 0, 0, 2], [0, 0, 0, 0, 1], [0, 0, 0, 0, 1]]\<rparr>,
        wave_q\<lparr>wf_data := [[0, 0, 0, 0, \<i>], [0, 0, 0, 0, 2], [0, 0, 0, 0, 1], [0, 0, 0, 0, 1]]\<rparr>)"
  by (simp add: select_modes_def wave_q_def zero_unselected_def zero_column_def n_modes_def
      LM_range_def LM_index_def np_index_def bindE_def upto_unfold)

lemma win_q: "restrict_window wave_q (wave_q\<lparr>wf_data := [[0, 0, 0, 0, \<i>], [0, 0, 0, 0, 2], [0, 0, 0, 0, 1], [0, 0, 0, 0, 1]]\<rparr>) 0 3
   = Inr (wave_q\<lparr>wf_t := [1, 2, 3], wf_data := [[0, 0, 0, 0, 2], [0, 0, 0, 0, 1], [0, 0, 0, 0, 1]]\<rparr>)"
  by (simp add: restrict_window_def nearest_index_def wave_q_def slice_times_def bindE_def)

lemma interp_q: "linear_interpolate (wave_q\<lparr>wf_data := [[0, 0, 0, 0, \<i>], [0, 0, 0, 0, 2], [0, 0, 0, 0, 1], [0, 0, 0, 0, 1]]\<rparr>) [1, 2, 3]
   = wave_q\<lparr>wf_t := [1, 2, 3], wf_data := [[0, 0, 0, 0, 2], [0, 0, 0, 0, 1], [0, 0, 0, 0, 1]]\<rparr>"
  by (simp add: linear_interpolate_def wave_q_def)

lemma norm_q: "trapezoid (norm_wf (wave_q\<lparr>wf_t := [1, 2, 3], wf_data := [[0, 0, 0, 0, 2], [0, 0, 0, 0, 1], [0, 0, 0, 0, 1]]\<rparr>)) [1, 2, 3] = Inr (7 / 2)"
  by (simp add: trapezoid_def norm_wf_def np_broadcast_def np_diff_def bindE_def wave_q_def)

text \<open>
  Witness for C9: a four-sample waveform, mode subset \<open>{(2, 2)}\<close>, window \<open>(0, 3)\<close>.
\<close>

theorem mismatch_self_zero_witness:
  "waveform_mismatch linear_interpolate wave_q wave_q (Some [(2, 2)]) 0 3 = Inr 0"
proof -
  let ?hc = "wave_q\<lparr>wf_data := [[0, 0, 0, 0, \<i>], [0, 0, 0, 0, 2], [0, 0, 0, 0, 1], [0, 0, 0, 0, 1]]\<rparr>"
  let ?hr = "wave_q\<lparr>wf_t := [1, 2, 3], wf_data := [[0, 0, 0, 0, 2], [0, 0, 0, 0, 1], [0, 0, 0, 0, 1]]\<rparr>"
  have t: "wf_t ?hr = [1, 2, 3]" by simp
  have i: "linear_interpolate ?hc (wf_t ?hr) = ?hr" unfolding t by (rule interp_q)
  have n: "trapezoid (norm_wf ?hr) (wf_t ?hr) = Inr (7 / 2)" unfolding t by (rule norm_q)
  show ?thesis
    by (rule mismatch_self_zero [where interp = linear_interpolate, OF sel_q win_q i n]) simp
qed

text \<open>
  Counterexample to C9 as stated: the window \<open>(0, 1)\<close> keeps a single sample, both norm
  integrals are \<open>0\<close>, and the score is \<open>0 / 0\<close>.
\<close>

theorem mismatch_self_counterexample:
  "waveform_mismatch linear_interpolate wave_q wave_q None 0 1 = Inl NotFinite"
  by (simp add: waveform_mismatch_def select_modes_def restrict_window_def nearest_index_def
      wave_q_def slice_times_def bindE_def align_B_def linear_interpolate_def mismatch_score_def
      overlap_integrand_def np_broadcast2_def np_broadcast_def trapezoid_def norm_wf_def
      np_diff_def np_sqrt_def np_divide_def)

text \<open>
  Witness for C5: two three-sample waveforms, window \<open>(0, 4)\<close>.
\<close>

theorem align_B_witness:
  "waveform_mismatch linear_interpolate wave_a wave_b None 0 4 =
     mismatch_score (slice_times wave_a 1 3) (linear_interpolate wave_b [1, 2])"
proof -
  have sel: "select_modes None wave_a wave_b = Inr (wave_a, wave_b)"
    by (simp add: select_modes_def)
  have win: "restrict_window wave_a wave_a 0 4 = Inr (slice_times wave_a 1 3)"
    by (simp add: restrict_window_def nearest_index_def wave_a_def bindE_def slice_times_def)
  have t: "wf_t (slice_times wave_a 1 3) = [1, 2]"
    by (simp add: slice_times_def wave_a_def)
  have len: "length (wf_t wave_a) = length (wf_t wave_b)"
    by (simp add: wave_a_def wave_b_def)
  from align_B_compares_unrestricted [where interp = linear_interpolate, OF sel win,
      THEN conjunct2, THEN mp, OF len]
  show ?thesis by (simp only: t)
qed

text \<open>
  Counterexample to C5 as stated: after their own restriction to \<open>(0, 4)\<close> both waveforms keep
  two samples, yet \<open>waveform_B\<close> is interpolated and not windowed.
\<close>

theorem align_B_counterexample:
  "restrict_window wave_a wave_a 0 4 = Inr (slice_times wave_a 1 3)
   \<and> restrict_window wave_b wave_b 0 4 = Inr (slice_times wave_b 1 3)
   \<and> length (wf_t (slice_times wave_b 1 3)) = length (wf_t (slice_times wave_a 1 3))
   \<and> align_B linear_interpolate (slice_times wave_a 1 3) wave_b wave_b 0 4
        = Inr (linear_interpolate wave_b (wf_t (slice_times wave_a 1 3)))
   \<and> align_B linear_interpolate (slice_times wave_a 1 3) wave_b wave_b 0 4
        \<noteq> restrict_window wave_b wave_b 0 4"
  by (simp add: restrict_window_def nearest_index_def wave_a_def wave_b_def bindE_def
      slice_times_def align_B_def linear_interpolate_def)

text \<open>
  Claim C7.  For sign \<open>- 1\<close> the oracle is queried with \<open>(ell, - m, n)\<close>; the adapter returns the
  negated conjugate of its frequency divided by the mass, and the conjugated mixing
  coefficients multiplied by \<open>(- 1) ^ (ell + l')\<close> at each mixing index \<open>l'\<close>.  For sign \<open>+ 1\<close> the
  oracle is queried with \<open>(ell, m, n)\<close> and only the division by the mass is applied.
\<close>

theorem qnm_from_tuple_symmetry:
  "(mass \<noteq> 0 \<and> ksc orc s ell (- m) n = Inr mode_seq \<and> call_mode_seq mode_seq chi = Inr (Momega, C)
      \<and> ells = angular_ells orc s m (ms_l_max mode_seq) \<and> length C = length ells
      \<and> (\<forall>l' \<in> set ells. 0 \<le> ell + l')
    \<longrightarrow> qnm_from_tuple orc (ell, m, n, - 1) chi mass s =
          Inr (- cnj Momega / of_real mass,
               map2 (\<lambda>l' c. (- 1) ^ nat (ell + l') * cnj c) ells C, ells))
   \<and> (mass \<noteq> 0 \<and> ksc orc s ell m n = Inr mode_seq \<and> call_mode_seq mode_seq chi = Inr (Momega, C)
    \<longrightarrow> qnm_from_tuple orc (ell, m, n, 1) chi mass s =
          Inr (Momega / of_real mass, C, angular_ells orc s m (ms_l_max mode_seq)))"
proof (intro conjI impI)
  assume a: "mass \<noteq> 0 \<and> ksc orc s ell (- m) n = Inr mode_seq \<and> call_mode_seq mode_seq chi = Inr (Momega, C)
      \<and> ells = angular_ells orc s m (ms_l_max mode_seq) \<and> length C = length ells
      \<and> (\<forall>l' \<in> set ells. 0 \<le> ell + l')"
  then have pw: "np_neg_one_pow (map (\<lambda>l. ell + l) ells) = Inr (map (\<lambda>l. (- 1) ^ nat (ell + l)) ells)"
    by (auto simp: np_neg_one_pow_def list_ex_iff)
  have zz: "map2 (\<lambda>sg c. of_int sg * c) (map (\<lambda>l. (- 1) ^ nat (ell + l)) ells) (map cnj C)
      = map2 (\<lambda>l' c. (- 1) ^ nat (ell + l') * cnj c) ells C"
    by (auto simp: zip_map_map)
  from a have len: "length C = length ells" by simp
  show "qnm_from_tuple orc (ell, m, n, - 1) chi mass s =
          Inr (- cnj Momega / of_real mass,
               map2 (\<lambda>l' c. (- 1) ^ nat (ell + l') * cnj c) ells C, ells)"
    using a pw zz len by (simp add: qnm_from_tuple_def bindE_def np_broadcast_def Let_def)
next
  assume "mass \<noteq> 0 \<and> ksc orc s ell m n = Inr mode_seq \<and> call_mode_seq mode_seq chi = Inr (Momega, C)"
  then show "qnm_from_tuple orc (ell, m, n, 1) chi mass s =
          Inr (Momega / of_real mass, C, angular_ells orc s m (ms_l_max mode_seq))"
    by (simp add: qnm_from_tuple_def bindE_def)
qed

lemma toy_ksc: "ksc toy_oracle (- 2) 2 (- 2) 1 = Inr (toy_mode_seq (- 2) 2 (- 2) 1)"
  by (simp add: toy_oracle_def)

lemma toy_call: "call_mode_seq (toy_mode_seq (- 2) 2 (- 2) 1) (1 / 2)
    = Inr (Complex 1 (- 1), [1, Complex 0 (1 / 2)])"
  by (simp add: call_mode_seq_def toy_mode_seq_def upto.simps)

lemma toy_ells: "angular_ells toy_oracle (- 2) 2 (ms_l_max (toy_mode_seq (- 2) 2 (- 2) 1)) = [2, 3]"
  "angular_ells toy_oracle (- 2) (- 2) (ms_l_max (toy_mode_seq (- 2) 2 (- 2) 1)) = [2, 3]"
  by (simp_all add: toy_oracle_def toy_mode_seq_def upto.simps)

text \<open>
  Witness for C7: the labels \<open>(2, 2, 1, - 1)\<close> and \<open>(2, - 2, 1, + 1)\<close> at spin \<open>1 / 2\<close>, mass \<open>2\<close>.
\<close>

theorem qnm_from_tuple_symmetry_witness:
  "qnm_from_tuple toy_oracle (2, 2, 1, - 1) (1 / 2) 2 (- 2) =
     Inr (Complex (- 1 / 2) (- 1 / 2), [1, Complex 0 (1 / 2)], [2, 3])
   \<and> qnm_from_tuple toy_oracle (2, - 2, 1, 1) (1 / 2) 2 (- 2) =
     Inr (Complex (1 / 2) (- 1 / 2), [1, Complex 0 (1 / 2)], [2, 3])"
proof -
  have 1: "qnm_from_tuple toy_oracle (2, 2, 1, - 1) (1 / 2) 2 (- 2) =
          Inr (- cnj (Complex 1 (- 1)) / of_real 2,
               map2 (\<lambda>l' c. (- 1) ^ nat (2 + l') * cnj c) [2, 3] [1, Complex 0 (1 / 2)], [2, 3])"
    using qnm_from_tuple_symmetry [of 2 toy_oracle "- 2" 2 2 1 "toy_mode_seq (- 2) 2 (- 2) 1"
        "1 / 2" "Complex 1 (- 1)" "[1, Complex 0 (1 / 2)]" "[2, 3]"]
      toy_ksc toy_call toy_ells by simp
  have 2: "qnm_from_tuple toy_oracle (2, - 2, 1, 1) (1 / 2) 2 (- 2) =
          Inr (Complex 1 (- 1) / of_real 2, [1, Complex 0 (1 / 2)], [2, 3])"
    using qnm_from_tuple_symmetry [of 2 toy_oracle "- 2" 2 "- 2" 1 "toy_mode_seq (- 2) 2 (- 2) 1"
        "1 / 2" "Complex 1 (- 1)" "[1, Complex 0 (1 / 2)]" "[2, 3]"]
      toy_ksc toy_call toy_ells by simp
  show ?thesis unfolding 1 2 by (simp add: complex_eq_iff)
qed

lemma foldS_append_raise:
  assumes "foldS f xs s = (s', Inr u)" "f y s' = (s'', Inl e)"
  shows "foldS f (xs @ y # ys) s = (s'', Inl e)"
  using assms
  by (induction xs arbitrary: s) (auto split: prod.splits sum.splits)

lemma LM_range_2_2: "LM_range 2 2 = [(2, - 2), (2, - 1), (2, 0), (2, 1), (2, 2)]"
  by (simp add: LM_range_def upto.simps)

text \<open>
  Claim C8, as amended.  The adapter raises \<open>ValueError\<close> for every sign other than \<open>+ 1\<close> and
  \<open>- 1\<close>.  When the terms before a term of unrecognised type are added without error, the
  synthesizer raises \<open>ValueError\<close> at that term and returns no array; a destination array of
  the right shape and dtype has by then been zero-filled and holds the contributions of the
  terms before it.
\<close>

theorem invalid_argument_errors:
  "(sign \<noteq> 1 \<and> sign \<noteq> - 1 \<longrightarrow> qnm_from_tuple orc (ell, m, n, sign) chi_value mass_value s = Inl ValueError)
   \<and> (term_type bad \<noteq> ''QNM'' \<and> term_type bad \<noteq> ''other''
        \<and> foldS (add_term orc chi mass (- 2) t_ref t LM) (map snd before)
             (replicate (length t) (replicate (length LM) 0)) = (data, Inr ())
      \<longrightarrow> data_functor orc chi mass (before @ (k, bad) # after) None t_ref t LM = (None, Inl ValueError)
        \<and> (buf_shape b = [length t, length LM] \<and> buf_is_complex b
            \<longrightarrow> data_functor orc chi mass (before @ (k, bad) # after) (Some b) t_ref t LM
                  = (Some (b\<lparr>buf_data := data\<rparr>), Inl ValueError)))"
proof (intro conjI impI)
  assume "sign \<noteq> 1 \<and> sign \<noteq> - 1"
  then show "qnm_from_tuple orc (ell, m, n, sign) chi_value mass_value s = Inl ValueError"
    by (simp add: qnm_from_tuple_def bindE_def)
next
  assume a: "term_type bad \<noteq> ''QNM'' \<and> term_type bad \<noteq> ''other''
        \<and> foldS (add_term orc chi mass (- 2) t_ref t LM) (map snd before)
             (replicate (length t) (replicate (length LM) 0)) = (data, Inr ())"
  then have bad: "add_term orc chi mass (- 2) t_ref t LM bad data = (data, Inl ValueError)"
    by (simp add: add_term_def)
  have run: "foldS (add_term orc chi mass (- 2) t_ref t LM) (map snd (before @ (k, bad) # after))
             (replicate (length t) (replicate (length LM) 0)) = (data, Inl ValueError)"
    using foldS_append_raise [where f = "add_term orc chi mass (- 2) t_ref t LM"
        and xs = "map snd before" and y = bad and ys = "map snd after" and s' = data
        and s'' = data and e = ValueError and u = "()"] a bad by simp
  show "data_functor orc chi mass (before @ (k, bad) # after) None t_ref t LM = (None, Inl ValueError)"
    unfolding data_functor_def Let_def run by simp
  assume "buf_shape b = [length t, length LM] \<and> buf_is_complex b"
  then show "data_functor orc chi mass (before @ (k, bad) # after) (Some b) t_ref t LM
                  = (Some (b\<lparr>buf_data := data\<rparr>), Inl ValueError)"
    unfolding data_functor_def Let_def run by simp
qed

lemma other_term_run:
  "foldS (add_term toy_oracle (Scalar (1 / 2)) (Scalar 1) (- 2) 0 [0, 1] (LM_range 2 2)) (map snd [(IntKey 0, other_term)])
     (replicate (length [0, 1 :: real]) (replicate (length (LM_range 2 2)) 0))
   = ([[0, 0, 0, 0, 2], [0, 0, 0, 0, 2]], Inr ())"
  by (simp add: LM_range_2_2 add_term_def other_term_def add_other_def commit_def bindE_def
      get_field_def min_ell_def python_min_def np_index_def LM_index_def np_iadd_column_def
      expiwt_at_def)

text \<open>
  Witness for C8: sign \<open>0\<close>, and a dictionary whose second term has the type \<open>overtone\<close>.
\<close>

theorem invalid_argument_errors_witness:
  "qnm_from_tuple toy_oracle (2, 2, 0, 0) (1 / 2) 1 (- 2) = Inl ValueError
   \<and> data_functor toy_oracle (Scalar (1 / 2)) (Scalar 1)
        ([(IntKey 0, other_term)] @ (IntKey 1, unknown_term) # [(IntKey 2, qnm_220)]) None 0 [0, 1] (LM_range 2 2)
      = (None, Inl ValueError)
   \<and> data_functor toy_oracle (Scalar (1 / 2)) (Scalar 1)
        ([(IntKey 0, other_term)] @ (IntKey 1, unknown_term) # [(IntKey 2, qnm_220)]) (Some dest_buffer) 0 [0, 1]
        (LM_range 2 2)
      = (Some (dest_buffer\<lparr>buf_data := [[0, 0, 0, 0, 2], [0, 0, 0, 0, 2]]\<rparr>), Inl ValueError)"
  using invalid_argument_errors [of 0 toy_oracle 2 2 0 "1 / 2" 1 "- 2" unknown_term
      "Scalar (1 / 2)" "Scalar 1" 0 "[0, 1]" "LM_range 2 2" "[(IntKey 0, other_term)]"
      "[[0, 0, 0, 0, 2], [0, 0, 0, 0, 2]]" "IntKey 1" "[(IntKey 2, qnm_220)]" dest_buffer]
    other_term_run
  by (simp add: unknown_term_def dest_buffer_def LM_range_2_2)

text \<open>
  Counterexample to C8 as stated: the destination array is written before the error is
  raised.
\<close>

theorem partial_write_counterexample:
  "data_functor toy_oracle (Scalar (1 / 2)) (Scalar 1)
        [(IntKey 0, other_term), (IntKey 1, unknown_term)] (Some dest_buffer) 0 [0, 1] (LM_range 2 2)
      = (Some (dest_buffer\<lparr>buf_data := [[0, 0, 0, 0, 2], [0, 0, 0, 0, 2]]\<rparr>), Inl ValueError)
   \<and> dest_buffer\<lparr>buf_data := [[0, 0, 0, 0, 2], [0, 0, 0, 0, 2]]\<rparr> \<noteq> dest_buffer"
  by (simp add: data_functor_def LM_range_2_2 add_term_def other_term_def unknown_term_def
      add_other_def commit_def bindE_def dest_buffer_def
      get_field_def min_ell_def python_min_def np_index_def LM_index_def np_iadd_column_def
      expiwt_at_def)


text \<open>
  Claim C10.  The synthesizer's result is the same for any two values of \<open>t_0\<close>; with
  \<open>t_0 = 5\<close> the samples at the times \<open>0\<close> and \<open>1\<close> are not zero.
\<close>

theorem t_0_has_no_effect:
  "qnm_modes orc chi mass mode_dict dest t_0 t_ref t ell_min ell_max
     = qnm_modes orc chi mass mode_dict dest t_0' t_ref t ell_min ell_max
   \<and> qnm_modes_as orc chi mass mode_dict W_other dest t_0 t_ref
     = qnm_modes_as orc chi mass mode_dict W_other dest t_0' t_ref
   \<and> qnm_modes toy_oracle (Scalar (1 / 2)) (Scalar 1) [(IntKey 0, other_term)] None 5 0 [0, 1] 2 2
     = (None, Inr \<lparr>wf_t = [0, 1], wf_data = [[0, 0, 0, 0, 2], [0, 0, 0, 0, 2]],
                   wf_ell_min = 2, wf_ell_max = 2\<rparr>)"
proof (intro conjI)
  show "qnm_modes orc chi mass mode_dict dest t_0 t_ref t ell_min ell_max
     = qnm_modes orc chi mass mode_dict dest t_0' t_ref t ell_min ell_max"
    by (simp add: qnm_modes_def modes_constructor_def)
  then show "qnm_modes_as orc chi mass mode_dict W_other dest t_0 t_ref
     = qnm_modes_as orc chi mass mode_dict W_other dest t_0' t_ref"
    by (simp add: qnm_modes_as_def qnm_modes_def modes_constructor_def)
  show "qnm_modes toy_oracle (Scalar (1 / 2)) (Scalar 1) [(IntKey 0, other_term)] None 5 0 [0, 1] 2 2
     = (None, Inr \<lparr>wf_t = [0, 1], wf_data = [[0, 0, 0, 0, 2], [0, 0, 0, 0, 2]],
                   wf_ell_min = 2, wf_ell_max = 2\<rparr>)"
    using other_term_run
    by (simp add: qnm_modes_def modes_constructor_def data_functor_def)
qed

text \<open>
  Witness for C10: \<open>t_0 = 5\<close> against \<open>t_0 = - 3\<close>.
\<close>

theorem t_0_has_no_effect_witness:
  "qnm_modes toy_oracle (Scalar (1 / 2)) (Scalar 1) [(IntKey 0, other_term)] None 5 0 [0, 1] 2 2
     = qnm_modes toy_oracle (Scalar (1 / 2)) (Scalar 1) [(IntKey 0, other_term)] None (- 3) 0 [0, 1] 2 2"
  using t_0_has_no_effect [of toy_oracle "Scalar (1 / 2)" "Scalar 1" "[(IntKey 0, other_term)]"
      None 5 0 "[0, 1]" 2 2 "- 3"]
  by simp

lemma LM_range_1_2:
  "LM_range 1 2 = [(1, - 1), (1, 0), (1, 1), (2, - 2), (2, - 1), (2, 0), (2, 1), (2, 2)]"
  by (simp add: LM_range_def upto.simps)

lemma toy_qnm_200:
  "qnm_from_tuple toy_oracle (2, 0, 0, 1) (1 / 2) 1 (- 2) = Inr (0, [1, Complex 0 (1 / 2)], [2, 3])"
  by (simp add: qnm_from_tuple_def toy_oracle_def toy_mode_seq_def call_mode_seq_def bindE_def
      upto.simps zero_complex.code)

text \<open>
  Claim C4 at a failing input: the term \<open>(2, 0, 0, + 1)\<close> synthesized on the modes
  \<open>ell = 1, 2\<close>.  The column \<open>(1, 0)\<close> matches the term's \<open>m\<close>, \<open>ell' = 1\<close> is not among the mixing
  indices \<open>2, 3\<close>, and the synthesis raises instead of adding nothing.
\<close>

theorem missing_ell_raises:
  "qnm_modes toy_oracle (Scalar (1 / 2)) (Scalar 1) [(IntKey 0, qnm_200)] None 0 0 [0, 1] 1 2
     = (None, Inl ValueError)"
  by (simp add: qnm_modes_def modes_constructor_def data_functor_def LM_range_1_2 add_term_def
      qnm_200_def add_qnm_scalar_def get_field_def toy_qnm_200 add_mode_scalar_def commit_def
      bindE_def np_mask_def min_ell_def python_min_def np_index_def LM_index_def
      np_broadcast_def)

lemma LM_range_2_3:
  "LM_range 2 3 = [(2, - 2), (2, - 1), (2, 0), (2, 1), (2, 2),
     (3, - 3), (3, - 2), (3, - 1), (3, 0), (3, 1), (3, 2), (3, 3)]"
  by (simp add: LM_range_def upto.simps)

lemma toy_qnm_a:
  "qnm_from_tuple toy_oracle (2, 2, 0, 1) 0 1 (- 2) = Inr (0, [1, 0], [2, 3])"
  by (simp add: qnm_from_tuple_def toy_oracle_def toy_mode_seq_def call_mode_seq_def bindE_def
      upto.simps zero_complex.code)

lemma toy_qnm_b:
  "qnm_from_tuple toy_oracle (3, 2, 0, 1) 0 1 (- 2) = Inr (0, [0, 1], [2, 3])"
  by (simp add: qnm_from_tuple_def toy_oracle_def toy_mode_seq_def call_mode_seq_def bindE_def
      upto.simps zero_complex.code)

lemmas synth_defs = qnm_modes_as_def qnm_modes_def modes_constructor_def data_functor_def
  add_term_def add_qnm_scalar_def get_field_def add_mode_scalar_def commit_def
  bindE_def np_mask_def min_ell_def python_min_def np_index_def LM_index_def
  np_broadcast_def np_iadd_column_def expiwt_at_def

lemma synth_ab:
  "qnm_modes toy_oracle (Scalar 0) (Scalar 1)
     [(IntKey 0, term_a\<lparr>term_A := Some 3\<rparr>), (IntKey 1, term_b\<lparr>term_A := Some 5\<rparr>)] None 0 0 [0, 1] 2 3
   = (None, Inr ring_ab)"
  by (simp add: synth_defs LM_range_2_3 term_a_def term_b_def toy_qnm_a toy_qnm_b ring_ab_def)

lemmas fit_defs = fit_ringdown_waveform_LLSQ_S2_def collect_m_def term_m_def append_new_def
  fit_group_def mode_labels_def group_columns_def slice_ells_def np_take_columns_def
  n_modes_def basis_column_def set_A_at_def np_assign_block_def np_reshape_flat_def
  design_matrix_def write_back_def

lemma collect_swapped: "collect_m dict_swapped = Inr [2]"
  by (simp add: collect_m_def term_m_def dict_swapped_def term_a_def term_b_def get_field_def
      bindE_def append_new_def)

lemma labels_swapped: "mode_labels (set_A_at (set_A_at dict_swapped 0 x) 1 y) 2 = Inr [0, 1]"
  "mode_labels dict_swapped 2 = Inr [0, 1]"
  by (simp_all add: mode_labels_def term_m_def dict_swapped_def term_a_def term_b_def get_field_def
      bindE_def set_A_at_def upt_conv_Cons)

lemma columns_ab: "group_columns ring_ab None 2 = Inr ([4, 10], 2, 3)"
  by (simp add: group_columns_def ring_ab_def LM_index_def upto.simps)

lemma n_modes_ab: "n_modes ring_ab = 12"
  by (simp add: n_modes_def ring_ab_def LM_range_2_3)

lemma slice_ab: "slice_ells ring_ab 4 = Inr ring_ab"
  by (simp add: slice_ells_def ring_ab_def LM_range_2_3)

lemma take_ab: "np_take_columns 12 (wf_data ring_ab) [4, 10] = Inr [[3, 5], [3, 5]]"
  by (simp add: np_take_columns_def ring_ab_def np_index_def bindE_def)

lemma unit_a:
  "qnm_modes_as toy_oracle (Scalar 0) (Scalar 1) [(IntKey 0, term_a\<lparr>term_A := Some 1\<rparr>)] ring_ab None t0 0
   = (None, Inr (ring_ab\<lparr>wf_data :=
        [[0, 0, 0, 0, 1, 0, 0, 0, 0, 0, 0, 0], [0, 0, 0, 0, 1, 0, 0, 0, 0, 0, 0, 0]]\<rparr>))"
  by (simp add: synth_defs LM_range_2_3 term_a_def toy_qnm_a ring_ab_def)

lemma unit_b:
  "qnm_modes_as toy_oracle (Scalar 0) (Scalar 1) [(IntKey 0, term_b\<lparr>term_A := Some 1\<rparr>)] ring_ab None t0 0
   = (None, Inr (ring_ab\<lparr>wf_data :=
        [[0, 0, 0, 0, 0, 0, 0, 0, 0, 0, 1, 0], [0, 0, 0, 0, 0, 0, 0, 0, 0, 0, 1, 0]]\<rparr>))"
  by (simp add: synth_defs LM_range_2_3 term_b_def toy_qnm_b ring_ab_def)

lemma basis_swapped:
  "foldS (basis_column toy_oracle (Scalar 0) (Scalar 1) ring_ab [4, 10] 2 t0 0) [0, 1] (dict_swapped, [])
   = ((set_A_at (set_A_at dict_swapped 0 1) 1 1, [[[1, 0], [1, 0]], [[0, 1], [0, 1]]]), Inr ())"
proof -
  have a: "snd (set_A_at dict_swapped 0 1 ! 0) = term_a\<lparr>term_A := Some 1\<rparr>"
    by (simp add: set_A_at_def dict_swapped_def)
  have b: "snd (set_A_at (set_A_at dict_swapped 0 1) 1 1 ! 1) = term_b\<lparr>term_A := Some 1\<rparr>"
    by (simp add: set_A_at_def dict_swapped_def)
  have n: "n_modes (ring_ab\<lparr>wf_data := d\<rparr>) = 12" for d
    by (simp add: n_modes_def ring_ab_def LM_range_2_3)
  show ?thesis
    using a b
    by (simp add: basis_column_def Let_def unit_a unit_b n commit_def bindE_def
        np_take_columns_def np_index_def np_assign_block_def)
qed

lemma solve_swapped:
  "lstsq_orthogonal (design_matrix [[[1, 0], [1, 0]], [[0, 1], [0, 1]]] 4) [3, 5, 3, 5] = Inr [3, 5]"
  by (simp add: design_matrix_def lstsq_orthogonal_def inner_def upt_conv_Cons)

lemma write_swapped:
  "foldS (write_back [3, 5]) (zip [0, 1] [0..<length [0, 1 :: nat]]) (set_A_at (set_A_at dict_swapped 0 1) 1 1)
   = ([(IntKey 1, term_a\<lparr>term_A := Some 5\<rparr>), (IntKey 0, term_b\<lparr>term_A := Some 3\<rparr>)], Inr ())"
  by (simp add: write_back_def commit_def bindE_def set_A_at_def dict_swapped_def upt_conv_Cons)

lemma group_swapped:
  "fit_group toy_oracle lstsq_orthogonal ring_ab None (Scalar 0) (Scalar 1) t0 0 2 dict_swapped
   = ([(IntKey 1, term_a\<lparr>term_A := Some 5\<rparr>), (IntKey 0, term_b\<lparr>term_A := Some 3\<rparr>)], Inr ())"
proof -
  have t: "length (wf_t ring_ab) = 2" by (simp add: ring_ab_def)
  show ?thesis
    using basis_swapped [of t0] solve_swapped write_swapped
    by (simp add: fit_group_def labels_swapped columns_ab slice_ab n_modes_ab take_ab bindE_def
        np_reshape_flat_def t)
qed

lemma erase_A_set_A_at: "erase_A (set_A_at d i v) = erase_A d"
proof (cases "i < length d")
  case True
  have "erase_A (set_A_at d i v) = (erase_A d)[i := (fst (d ! i), (snd (d ! i))\<lparr>term_A := None\<rparr>)]"
    by (simp add: erase_A_def set_A_at_def map_update)
  also have "\<dots> = erase_A d"
    using True by (simp add: erase_A_def list_eq_iff_nth_eq nth_list_update split_beta)
  finally show ?thesis .
next
  case False
  then show ?thesis by (simp add: set_A_at_def list_update_beyond)
qed






lemma group_named:
  "fit_group toy_oracle lstsq_orthogonal ring_ab None (Scalar 0) (Scalar 1) t0 0 2 dict_named
   = ([(StrKey ''a'', term_a\<lparr>term_A := Some 1\<rparr>), (StrKey ''b'', term_b\<lparr>term_A := Some 1\<rparr>)], Inl KeyError)"
proof -
  have t: "length (wf_t ring_ab) = 2" by (simp add: ring_ab_def)
  have l: "mode_labels dict_named 2 = Inr [0, 1]"
    by (simp add: mode_labels_def term_m_def dict_named_def term_a_def term_b_def get_field_def
      bindE_def upt_conv_Cons)
  have a: "snd (set_A_at dict_named 0 1 ! 0) = term_a\<lparr>term_A := Some 1\<rparr>"
    by (simp add: set_A_at_def dict_named_def)
  have b: "snd (set_A_at (set_A_at dict_named 0 1) 1 1 ! 1) = term_b\<lparr>term_A := Some 1\<rparr>"
    by (simp add: set_A_at_def dict_named_def)
  have n: "n_modes (ring_ab\<lparr>wf_data := d\<rparr>) = 12" for d
    by (simp add: n_modes_def ring_ab_def LM_range_2_3)
  have basis: "foldS (basis_column toy_oracle (Scalar 0) (Scalar 1) ring_ab [4, 10] 2 t0 0) [0, 1] (dict_named, [])
   = ((set_A_at (set_A_at dict_named 0 1) 1 1, [[[1, 0], [1, 0]], [[0, 1], [0, 1]]]), Inr ())"
    using a b
    by (simp add: basis_column_def Let_def unit_a unit_b n commit_def bindE_def
        np_take_columns_def np_index_def np_assign_block_def)
  have wb: "foldS (write_back [3, 5]) (zip [0, 1] [0..<length [0, 1 :: nat]]) (set_A_at (set_A_at dict_named 0 1) 1 1)
   = ([(StrKey ''a'', term_a\<lparr>term_A := Some 1\<rparr>), (StrKey ''b'', term_b\<lparr>term_A := Some 1\<rparr>)], Inl KeyError)"
    by (simp add: write_back_def commit_def bindE_def set_A_at_def dict_named_def upt_conv_Cons)
  show ?thesis
    using basis solve_swapped wb
    by (simp add: fit_group_def l columns_ab slice_ab n_modes_ab take_ab bindE_def
        np_reshape_flat_def t)
qed

text \<open>
  Claim C3 at two failing inputs.  The target is synthesized from the amplitudes \<open>3\<close> (term
  \<open>(2, 2, 0, + 1)\<close>) and \<open>5\<close> (term \<open>(3, 2, 0, + 1)\<close>).  With the keys \<open>1, 0\<close> the solved
  amplitudes are written to the wrong terms; with the keys \<open>a, b\<close> the write-back raises
  \<open>KeyError\<close> and leaves the unit amplitudes behind.
\<close>

theorem write_back_uses_enumeration_index:
  "qnm_modes toy_oracle (Scalar 0) (Scalar 1)
     [(IntKey 1, term_a\<lparr>term_A := Some 3\<rparr>), (IntKey 0, term_b\<lparr>term_A := Some 5\<rparr>)] None 0 0 [0, 1] 2 3
     = (None, Inr ring_ab)
   \<and> fst (fit_ringdown_waveform_LLSQ_S2 toy_oracle lstsq_orthogonal linear_interpolate ring_ab None (0, 1)
       (Scalar 0) (Scalar 1) [(IntKey 1, term_a), (IntKey 0, term_b)] 0)
     = [(IntKey 1, term_a\<lparr>term_A := Some 5\<rparr>), (IntKey 0, term_b\<lparr>term_A := Some 3\<rparr>)]
   \<and> fit_ringdown_waveform_LLSQ_S2 toy_oracle lstsq_orthogonal linear_interpolate ring_ab None (0, 1)
       (Scalar 0) (Scalar 1) [(StrKey ''a'', term_a), (StrKey ''b'', term_b)] 0
     = ([(StrKey ''a'', term_a\<lparr>term_A := Some 1\<rparr>), (StrKey ''b'', term_b\<lparr>term_A := Some 1\<rparr>)],
        Inl KeyError)"
proof (intro conjI)
  show "qnm_modes toy_oracle (Scalar 0) (Scalar 1)
     [(IntKey 1, term_a\<lparr>term_A := Some 3\<rparr>), (IntKey 0, term_b\<lparr>term_A := Some 5\<rparr>)] None 0 0 [0, 1] 2 3
     = (None, Inr ring_ab)"
    by (simp add: synth_defs LM_range_2_3 term_a_def term_b_def toy_qnm_a toy_qnm_b ring_ab_def)
  have c: "collect_m dict_named = Inr [2]"
    by (simp add: collect_m_def term_m_def dict_named_def term_a_def term_b_def get_field_def
      bindE_def append_new_def)
  show "fst (fit_ringdown_waveform_LLSQ_S2 toy_oracle lstsq_orthogonal linear_interpolate ring_ab None (0, 1)
       (Scalar 0) (Scalar 1) [(IntKey 1, term_a), (IntKey 0, term_b)] 0)
     = [(IntKey 1, term_a\<lparr>term_A := Some 5\<rparr>), (IntKey 0, term_b\<lparr>term_A := Some 3\<rparr>)]"
    using collect_swapped group_swapped [of 0]
    by (simp add: fit_ringdown_waveform_LLSQ_S2_def dict_swapped_def)
  show "fit_ringdown_waveform_LLSQ_S2 toy_oracle lstsq_orthogonal linear_interpolate ring_ab None (0, 1)
       (Scalar 0) (Scalar 1) [(StrKey ''a'', term_a), (StrKey ''b'', term_b)] 0
     = ([(StrKey ''a'', term_a\<lparr>term_A := Some 1\<rparr>), (StrKey ''b'', term_b\<lparr>term_A := Some 1\<rparr>)],
        Inl KeyError)"
    using c group_named [of 0]
    by (simp add: fit_ringdown_waveform_LLSQ_S2_def dict_named_def)
qed


























lemma term_targets_A [simp]:
  "term_targets orc chi mass LM (v\<lparr>term_A := x\<rparr>) = term_targets orc chi mass LM v"
  by (simp add: term_targets_def)

lemma unit_entry_A [simp]:
  "unit_entry orc chi mass t_ref t LM (v\<lparr>term_A := x\<rparr>) = unit_entry orc chi mass t_ref t LM v"
  by (simp add: unit_entry_def fun_eq_iff)






































lemma map_fst_set_A_at [simp]: "map fst (set_A_at d i v) = map fst d"
proof (cases "i < length d")
  case True
  then show ?thesis by (simp add: set_A_at_def map_update list_update_same_conv)
next
  case False
  then show ?thesis by (simp add: set_A_at_def list_update_beyond)
qed

lemma length_set_A_at [simp]: "length (set_A_at d i v) = length d"
  by (simp add: set_A_at_def)





lemma length_fold_set_A_at [simp]: "length (fold (\<lambda>i d. set_A_at d i (g i)) P d) = length d"
  by (induction P arbitrary: d) simp_all

lemma map_fst_fold_set_A_at [simp]: "map fst (fold (\<lambda>i d. set_A_at d i (g i)) P d) = map fst d"
  by (induction P arbitrary: d) simp_all




lemma erase_A_fold_set_A_at [simp]: "erase_A (fold (\<lambda>i d. set_A_at d i (g i)) P d) = erase_A d"
  by (induction P arbitrary: d) (simp_all add: erase_A_set_A_at)


















































end
